theory Spec2Isabelle
  imports Complex_Main
begin

section \<open>Python values and exceptions\<close>

text \<open>
  The module \<^verbatim>\<open>sample_space.py\<close> works on Python numbers and on \<^verbatim>\<open>None\<close>.
  Python's \<^verbatim>\<open>int\<close> and \<^verbatim>\<open>float\<close> are both read as the real number they denote, so
  arithmetic is exact: rounding of floats is not part of this model.
\<close>

datatype pyval = PNone | PNum real

text \<open>Truth value of a Python object, as \<^verbatim>\<open>or\<close> tests it: \<^verbatim>\<open>None\<close>, \<^verbatim>\<open>0\<close> and \<^verbatim>\<open>0.0\<close> are false.\<close>

fun truthy :: "pyval \<Rightarrow> bool" where
  "truthy PNone = False"
| "truthy (PNum x) = (x \<noteq> 0)"

text \<open>The exceptions the module can raise.\<close>

datatype error = IndexError | ZeroDivisionError | AssertionError

text \<open>Sequencing of computations that may raise: the first exception ends the evaluation.\<close>

definition bnd :: "error + 'a \<Rightarrow> ('a \<Rightarrow> error + 'b) \<Rightarrow> error + 'b" where
  "bnd m f = (case m of Inl e \<Rightarrow> Inl e | Inr x \<Rightarrow> f x)"

text \<open>\<^verbatim>\<open>args[i]\<close> for a literal index \<open>i \<ge> 0\<close>: out of range raises \<^verbatim>\<open>IndexError\<close>.\<close>

definition idx :: "real list \<Rightarrow> nat \<Rightarrow> error + real" where
  "idx args i = (if i < length args then Inr (args ! i) else Inl IndexError)"

text \<open>
  \<^verbatim>\<open>x ** n\<close> for a float \<open>x\<close> and an integer \<open>n\<close>: a zero base with a negative exponent
  raises \<^verbatim>\<open>ZeroDivisionError\<close>.
\<close>

definition py_pow :: "real \<Rightarrow> int \<Rightarrow> error + real" where
  "py_pow x n = (if x = 0 \<and> n < 0 then Inl ZeroDivisionError else Inr (x powi n))"

section \<open>The scale helper\<close>

text \<open>
  \<^verbatim>\<open>_scale(in_, min_, max_)\<close>, lines 179 to 199: two assertions, then the linear
  interpolation. (An Isabelle name can neither start nor end with an underscore:
  \<open>v_in\<close>, \<open>v_min\<close> and \<open>v_max\<close> are the parameters \<^verbatim>\<open>in_\<close>, \<^verbatim>\<open>min_\<close> and \<^verbatim>\<open>max_\<close>.)
\<close>

definition scale :: "real \<Rightarrow> real \<Rightarrow> real \<Rightarrow> error + real" where
  "scale v_in v_min v_max =
     (if \<not> (0 \<le> v_in \<and> v_in \<le> 1) then Inl AssertionError
      else if \<not> (v_min \<le> v_max) then Inl AssertionError
      else Inr (v_in * (v_max - v_min) + v_min))"

section \<open>The vector decoder\<close>

text \<open>
  \<^verbatim>\<open>parse_args(args)\<close>, lines 125 to 176. The result is the dictionary, as the list of its
  items in the order of the literal; a value is a number or \<^verbatim>\<open>None\<close>. The steps follow
  Python's evaluation order: the four assignments, \<^verbatim>\<open>fin_root_chord\<close>, \<^verbatim>\<open>fin_shape\<close>,
  then the values of the dictionary from top to bottom.
\<close>

definition parse_args :: "real list \<Rightarrow> error + (string \<times> pyval) list" where
  "parse_args args =
     bnd (idx args 2) (\<lambda>radius.
     bnd (idx args 4) (\<lambda>nose_len.
     bnd (idx args 5) (\<lambda>body_len_frac.
     bnd (py_pow (radius * 0.0254) (- 2)) (\<lambda>p.
     let tank_and_engine_len = 0.00690077 * p * 39.3701 + 10;
         body_len = body_len_frac * tank_and_engine_len
     in
     bnd (idx args 11) (\<lambda>a11.
     bnd (scale a11 2 ((body_len + nose_len) / 2)) (\<lambda>fin_root_chord.
     bnd (idx args 17) (\<lambda>fin_shape.
     bnd (idx args 0) (\<lambda>a0.
     bnd (idx args 1) (\<lambda>a1.
     bnd (idx args 3) (\<lambda>a3.
     bnd (scale a3 (nose_len + body_len - (tank_and_engine_len / 2))
                   (nose_len + body_len - (tank_and_engine_len / 3))) (\<lambda>dry_CoM.
     bnd (idx args 6) (\<lambda>a6.
     bnd (idx args 7) (\<lambda>a7.
     bnd (idx args 8) (\<lambda>a8.
     bnd (idx args 9) (\<lambda>a9.
     bnd (idx args 10) (\<lambda>a10.
     bnd (idx args 12) (\<lambda>a12.
     bnd (scale a12 2 ((body_len + nose_len) / 2)) (\<lambda>fin_span.
     bnd (idx args 13) (\<lambda>a13.
     bnd (scale a13 0 fin_root_chord) (\<lambda>fin_tip_chord.
     bnd (idx args 14) (\<lambda>a14.
     bnd (scale a14 0 fin_root_chord) (\<lambda>fin_sweep.
     bnd (idx args 15) (\<lambda>a15.
     bnd (idx args 16) (\<lambda>a16.
     bnd (scale a16 fin_root_chord ((body_len + nose_len) / 2)) (\<lambda>fin_base_sep.
     bnd (if fin_shape \<in> set [1, 3, 4, 5, 6, 7]
          then bnd (idx args 18) (\<lambda>a18. Inr (PNum a18)) else Inr PNone) (\<lambda>fin_le_rad.
     bnd (if fin_shape \<in> set [1, 3, 6]
          then bnd (idx args 19) (\<lambda>a19. Inr (PNum a19)) else Inr PNone) (\<lambda>fin_le_len.
     bnd (if fin_shape = 1
          then bnd (idx args 20) (\<lambda>a20. Inr (PNum a20)) else Inr PNone) (\<lambda>fin_te_len.
     bnd (idx args 21) (\<lambda>a21.
     Inr [(''dry_mass'', PNum a0),
          (''thrust_margin'', PNum a1),
          (''radius'', PNum radius),
          (''dry_CoM'', PNum dry_CoM),
          (''nose_len'', PNum nose_len),
          (''body_len'', PNum body_len),
          (''boat_len'', PNum a6),
          (''nose_shape'', PNum a7),
          (''nose_tip_di'', PNum a8),
          (''nose_power'', PNum a9),
          (''fin_count'', PNum a10),
          (''fin_root_chord'', PNum fin_root_chord),
          (''fin_span'', PNum fin_span),
          (''fin_tip_chord'', PNum fin_tip_chord),
          (''fin_sweep'', PNum fin_sweep),
          (''fin_thickness'', PNum (a15 / 8)),
          (''fin_base_sep'', PNum fin_base_sep),
          (''fin_shape'', PNum fin_shape),
          (''fin_le_rad'', fin_le_rad),
          (''fin_le_len'', fin_le_len),
          (''fin_te_len'', fin_te_len),
          (''CH4_tube_radius'', PNum (a21 / 8))]
     )))))))))))))))))))))))))))))"

text \<open>Reading a key of the returned dictionary.\<close>

definition dict_get :: "(string \<times> pyval) list \<Rightarrow> string \<Rightarrow> pyval option" where
  "dict_get d k = map_of d k"

section \<open>The space builder\<close>

text \<open>
  The expressions of the hyperopt library that the module builds: \<^verbatim>\<open>hp.uniform(label, low, high)\<close>,
  \<^verbatim>\<open>hp.randint(label, upper)\<close>, \<^verbatim>\<open>hp.choice(label, options)\<close>,
  \<^verbatim>\<open>hp.quniform(label, low, high, q)\<close>, and the sum \<^verbatim>\<open>1 + hp.randint(...)\<close> of a number
  and an expression. The library is not part of the module, which only builds these
  expressions: a term records the call and its arguments.
\<close>

datatype hp =
    hp_uniform string real real
  | hp_randint string nat
  | hp_choice string "real list"
  | hp_quniform string real real real
  | hp_add real hp

text \<open>An entry of the returned list: a value that was passed, or a hyperopt expression.\<close>

datatype entry = Val pyval | Expr hp

text \<open>
  \<^verbatim>\<open>x or e\<close> for a parameter \<open>x\<close> and a hyperopt expression \<open>e\<close>: \<open>x\<close> itself when it is
  true, \<open>e\<close> otherwise.
\<close>

definition py_or :: "pyval \<Rightarrow> hp \<Rightarrow> entry" where
  "py_or x e = (if truthy x then Val x else Expr e)"

text \<open>
  The parameters of \<^verbatim>\<open>get_sample_space\<close>, lines 9 to 21, after the call has bound them:
  each is a number or \<^verbatim>\<open>None\<close>. (The docstring also allows a hyperopt expression in
  place of a learnable value; its truth value is decided by the hyperopt library, so this
  model leaves such arguments out.)
\<close>

record sample_args =
  dry_mass :: pyval
  thrust_margin :: pyval
  radius :: pyval
  dry_com :: pyval
  nose_len :: pyval
  body_len :: pyval
  boat_len :: pyval
  nose_shape :: pyval
  nose_tip_di :: pyval
  nose_power :: pyval
  fin_count :: pyval
  fin_root_chord :: pyval
  fin_span :: pyval
  fin_tip_chord :: pyval
  fin_sweep :: pyval
  fin_thickness :: pyval
  fin_base_sep :: pyval
  fin_shape :: pyval
  fin_le_rad :: pyval
  fin_le_len :: pyval
  fin_te_len :: pyval
  ch4_tube_radius :: pyval

text \<open>\<^verbatim>\<open>get_sample_space\<close>, lines 99 to 122.\<close>

definition get_sample_space :: "sample_args \<Rightarrow> entry list" where
  "get_sample_space a =
     [Val (dry_mass a),
      Val (thrust_margin a),
      py_or (radius a) (hp_uniform ''radius'' 2 12),
      py_or (dry_com a) (hp_uniform ''dry_com'' 0 1),
      py_or (nose_len a) (hp_uniform ''nose_len'' 2 30),
      py_or (body_len a) (hp_uniform ''body_len'' 1.5 4),
      py_or (boat_len a) (hp_uniform ''boat_len'' 0 10),
      py_or (nose_shape a) (hp_add 1 (hp_randint ''nose_shape'' 7)),
      py_or (nose_tip_di a) (hp_uniform ''nose_tip_di'' 0 2),
      py_or (nose_power a) (hp_uniform ''nose_power'' 0 0.99),
      py_or (fin_count a) (hp_choice ''fin_count'' [3, 4]),
      py_or (fin_root_chord a) (hp_uniform ''fin_root_chord'' 0 1),
      py_or (fin_span a) (hp_uniform ''fin_span'' 0 1),
      py_or (fin_tip_chord a) (hp_uniform ''fin_tip_chord'' 0 1),
      py_or (fin_sweep a) (hp_uniform ''fin_sweep'' 0 1),
      py_or (fin_thickness a) (hp_quniform ''fin_thickness'' 1 10 1),
      py_or (fin_base_sep a) (hp_uniform ''fin_base_sep'' 0 1),
      py_or (fin_shape a) (hp_add 1 (hp_randint ''fin_shape'' 9)),
      py_or (fin_le_rad a) (hp_uniform ''fin_le_rad'' 0.1 1),
      py_or (fin_le_len a) (hp_uniform ''fin_le_len'' 0.1 3),
      py_or (fin_te_len a) (hp_uniform ''fin_te_len'' 0.1 3),
      py_or (ch4_tube_radius a) (hp_quniform ''ch4_tube_radius'' 1 16 1)]"

text \<open>The default values of the signature: what a call receives for a parameter it omits.\<close>

definition signature_defaults :: sample_args where
  "signature_defaults =
     \<lparr>dry_mass = PNum 65,
      thrust_margin = PNum 15,
      radius = PNone,
      dry_com = PNone,
      nose_len = PNone,
      body_len = PNone,
      boat_len = PNone,
      nose_shape = PNone,
      nose_tip_di = PNone,
      nose_power = PNone,
      fin_count = PNone,
      fin_root_chord = PNone,
      fin_span = PNone,
      fin_tip_chord = PNone,
      fin_sweep = PNone,
      fin_thickness = PNone,
      fin_base_sep = PNone,
      fin_shape = PNone,
      fin_le_rad = PNone,
      fin_le_len = PNone,
      fin_te_len = PNone,
      ch4_tube_radius = PNone\<rparr>"

section \<open>The preset spaces\<close>

text \<open>Lines 203 to 234: four calls with keyword arguments, the other parameters omitted.\<close>

definition space_all :: "entry list" where
  "space_all =
     get_sample_space signature_defaults"

text \<open>The keyword arguments of the call for \<open>space_most\<close>, lines 205 to 208, and the call.\<close>

definition space_most_args :: sample_args where
  "space_most_args =
     signature_defaults
       \<lparr>fin_le_rad := PNum 0.5,
        fin_le_len := PNum 1.5,
        fin_te_len := PNum 1.5,
        ch4_tube_radius := PNum 8\<rparr>"

definition space_most :: "entry list" where
  "space_most = get_sample_space space_most_args"

text \<open>The keyword arguments of the call for \<open>space_few\<close>, lines 210 to 217, and the call.\<close>

definition space_few_args :: sample_args where
  "space_few_args =
     signature_defaults
       \<lparr>fin_le_rad := PNum 0.5,
        fin_le_len := PNum 1.5,
        fin_te_len := PNum 1.5,
        ch4_tube_radius := PNum 8,
        nose_tip_di := PNum 0,
        fin_thickness := PNum 1,
        fin_base_sep := PNum 0,
        nose_power := PNum 0.1\<rparr>"

definition space_few :: "entry list" where
  "space_few = get_sample_space space_few_args"

text \<open>The keyword arguments of the call for \<open>space_body\<close>, lines 219 to 234, and the call.\<close>

definition space_body_args :: sample_args where
  "space_body_args =
     signature_defaults
       \<lparr>fin_le_rad := PNum 0.5,
        fin_le_len := PNum 1.5,
        fin_te_len := PNum 1.5,
        ch4_tube_radius := PNum 8,
        nose_len := PNum 15,
        nose_shape := PNum 1,
        nose_tip_di := PNum 0,
        nose_power := PNum 0,
        fin_count := PNum 4,
        fin_root_chord := PNum 1,
        fin_span := PNum 1,
        fin_tip_chord := PNum 0.75,
        fin_sweep := PNum 0.33,
        fin_thickness := PNum 1,
        fin_base_sep := PNum 0,
        fin_shape := PNum 7\<rparr>"

definition space_body :: "entry list" where
  "space_body = get_sample_space space_body_args"

section \<open>The vocabulary of the specification\<close>

text \<open>
  The formula of the specification for the combined tank and engine length, as a function
  of the radius. The decoder has its own copy inside \<open>parse_args\<close>; the two are compared
  below.
\<close>

definition spec_tank_and_engine_len :: "real \<Rightarrow> real" where
  "spec_tank_and_engine_len r = 0.00690077 * ((r * 0.0254) powi (- 2)) * 39.3701 + 10"

text \<open>
  The descriptor kinds of the specification and its canonical table of the 22 slots
  (name, kind and parameters), written from the specification's table, not from the code.
\<close>

datatype slot_kind =
    FixedScalar real
  | UniformRange real real
  | IntegerOffsetChoice nat real
  | Categorical "real list"
  | QuantizedUniform real real real

definition canonical_table :: "(string \<times> slot_kind) list" where
  "canonical_table =
     [(''dry_mass'', FixedScalar 65),
      (''thrust_margin'', FixedScalar 15),
      (''radius'', UniformRange 2 12),
      (''dry_com'', UniformRange 0 1),
      (''nose_len'', UniformRange 2 30),
      (''body_len'', UniformRange 1.5 4),
      (''boat_len'', UniformRange 0 10),
      (''nose_shape'', IntegerOffsetChoice 7 1),
      (''nose_tip_di'', UniformRange 0 2),
      (''nose_power'', UniformRange 0 0.99),
      (''fin_count'', Categorical [3, 4]),
      (''fin_root_chord'', UniformRange 0 1),
      (''fin_span'', UniformRange 0 1),
      (''fin_tip_chord'', UniformRange 0 1),
      (''fin_sweep'', UniformRange 0 1),
      (''fin_thickness'', QuantizedUniform 1 10 1),
      (''fin_base_sep'', UniformRange 0 1),
      (''fin_shape'', IntegerOffsetChoice 9 1),
      (''fin_le_rad'', UniformRange 0.1 1),
      (''fin_le_len'', UniformRange 0.1 3),
      (''fin_te_len'', UniformRange 0.1 3),
      (''ch4_tube_radius'', QuantizedUniform 1 16 1)]"

text \<open>
  The descriptor that a hyperopt expression stands for, with its label:
  \<^verbatim>\<open>hp.randint(label, n)\<close> draws from \<open>0, \<dots>, n - 1\<close>, so \<^verbatim>\<open>k + hp.randint(label, n)\<close>
  is the choice of \<open>n\<close> integers with offset \<open>k\<close>.
\<close>

fun descriptor :: "hp \<Rightarrow> (string \<times> slot_kind) option" where
  "descriptor (hp_uniform l lo hi) = Some (l, UniformRange lo hi)"
| "descriptor (hp_randint l n) = Some (l, IntegerOffsetChoice n 0)"
| "descriptor (hp_choice l xs) = Some (l, Categorical xs)"
| "descriptor (hp_quniform l lo hi q) = Some (l, QuantizedUniform lo hi q)"
| "descriptor (hp_add k (hp_randint l n)) = Some (l, IntegerOffsetChoice n k)"
| "descriptor (hp_add k _) = None"

text \<open>The parameters of a call with their names, in the order of the signature.\<close>

definition named_args :: "sample_args \<Rightarrow> (string \<times> pyval) list" where
  "named_args a =
     [(''dry_mass'', dry_mass a),
      (''thrust_margin'', thrust_margin a),
      (''radius'', radius a),
      (''dry_com'', dry_com a),
      (''nose_len'', nose_len a),
      (''body_len'', body_len a),
      (''boat_len'', boat_len a),
      (''nose_shape'', nose_shape a),
      (''nose_tip_di'', nose_tip_di a),
      (''nose_power'', nose_power a),
      (''fin_count'', fin_count a),
      (''fin_root_chord'', fin_root_chord a),
      (''fin_span'', fin_span a),
      (''fin_tip_chord'', fin_tip_chord a),
      (''fin_sweep'', fin_sweep a),
      (''fin_thickness'', fin_thickness a),
      (''fin_base_sep'', fin_base_sep a),
      (''fin_shape'', fin_shape a),
      (''fin_le_rad'', fin_le_rad a),
      (''fin_le_len'', fin_le_len a),
      (''fin_te_len'', fin_te_len a),
      (''ch4_tube_radius'', ch4_tube_radius a)]"

text \<open>
  A slot is pinned when its entry is a value; the learnable slots are those from index 2 on.
\<close>

fun is_Val :: "entry \<Rightarrow> bool" where
  "is_Val (Val _) = True"
| "is_Val (Expr _) = False"

definition pinned :: "entry list \<Rightarrow> nat" where
  "pinned sp = length (filter is_Val (drop 2 sp))"

text \<open>
  The number of keyword arguments of a call: the parameters whose value is not the default
  of the signature. (No preset passes a value that equals the default.)
\<close>

definition passed :: "sample_args \<Rightarrow> nat" where
  "passed a =
     length (filter (\<lambda>(x, y). x \<noteq> y) (zip (named_args a) (named_args signature_defaults)))"

section \<open>An example vector\<close>

text \<open>
  The vector of the specification's end-to-end example, and the dictionary that the
  decoder returns for it.
\<close>

definition example_vector :: "real list" where
  "example_vector =
     [65, 15, 10, 0.5, 20, 2, 0, 1, 1, 0.5, 3, 0.5, 0.5, 0.5, 0.5, 4, 0.5, 1, 0.5, 1.5, 1.5, 8]"

definition example_design :: "(string \<times> pyval) list" where
  "example_design =
     [(''dry_mass'', PNum 65),
      (''thrust_margin'', PNum 15),
      (''radius'', PNum 10),
      (''dry_CoM'', PNum (32903876094563 / 774192000000)),
      (''nose_len'', PNum 20),
      (''body_len'', PNum (916844004977 / 32258000000)),
      (''boat_len'', PNum 0),
      (''nose_shape'', PNum 1),
      (''nose_tip_di'', PNum 1),
      (''nose_power'', PNum (1 / 2)),
      (''fin_count'', PNum 3),
      (''fin_root_chord'', PNum (1691036004977 / 129032000000)),
      (''fin_span'', PNum (1691036004977 / 129032000000)),
      (''fin_tip_chord'', PNum (1691036004977 / 258064000000)),
      (''fin_sweep'', PNum (1691036004977 / 258064000000)),
      (''fin_thickness'', PNum (1 / 2)),
      (''fin_base_sep'', PNum (4815044014931 / 258064000000)),
      (''fin_shape'', PNum 1),
      (''fin_le_rad'', PNum (1 / 2)),
      (''fin_le_len'', PNum (3 / 2)),
      (''fin_te_len'', PNum (3 / 2)),
      (''CH4_tube_radius'', PNum 1)]"

section \<open>Facts about the building blocks\<close>

lemma bnd_Inr [simp]: "bnd (Inr x) f = f x"
  by (simp add: bnd_def)

lemma bnd_Inl [simp]: "bnd (Inl e) f = Inl e"
  by (simp add: bnd_def)

lemma bnd_eq_Inr_iff: "bnd m f = Inr y \<longleftrightarrow> (\<exists>x. m = Inr x \<and> f x = Inr y)"
  by (cases m) simp_all

lemma idx_eq_Inr_iff: "idx args i = Inr x \<longleftrightarrow> i < length args \<and> x = args ! i"
  by (auto simp: idx_def)

lemma py_pow_eq_Inr_iff: "py_pow x n = Inr y \<longleftrightarrow> \<not> (x = 0 \<and> n < 0) \<and> y = x powi n"
  by (auto simp: py_pow_def)

lemma scale_eq_Inr_iff:
  "scale a lo hi = Inr y \<longleftrightarrow> 0 \<le> a \<and> a \<le> 1 \<and> lo \<le> hi \<and> y = a * (hi - lo) + lo"
  by (auto simp: scale_def)

lemma scale_bounds:
  fixes a lo hi :: real
  assumes "0 \<le> a" "a \<le> 1" "lo \<le> hi"
  shows "lo \<le> a * (hi - lo) + lo" and "a * (hi - lo) + lo \<le> hi"
proof -
  have d: "0 \<le> hi - lo" using assms(3) by simp
  have "0 \<le> a * (hi - lo)" using assms(1) d by (rule mult_nonneg_nonneg)
  then show "lo \<le> a * (hi - lo) + lo" by simp
  have "a * (hi - lo) \<le> 1 * (hi - lo)" using assms(2) d by (rule mult_right_mono)
  then show "a * (hi - lo) + lo \<le> hi" by simp
qed

section \<open>When the decoder returns, and what\<close>

text \<open>
  The decoder returns a dictionary exactly when the vector has at least 22 entries, the
  radius is not zero and the six calls of the scale helper pass their assertions; the
  dictionary is then the one below.
\<close>

lemma parse_args_Inr_iff:
  "parse_args v = Inr d \<longleftrightarrow>
     22 \<le> length v \<and> v ! 2 \<noteq> 0 \<and>
     (\<exists>frc com span tip sweep sep.
        scale (v ! 11) 2 ((v ! 5 * spec_tank_and_engine_len (v ! 2) + v ! 4) / 2) = Inr frc \<and>
        scale (v ! 3)
          (v ! 4 + v ! 5 * spec_tank_and_engine_len (v ! 2) - spec_tank_and_engine_len (v ! 2) / 2)
          (v ! 4 + v ! 5 * spec_tank_and_engine_len (v ! 2) - spec_tank_and_engine_len (v ! 2) / 3)
          = Inr com \<and>
        scale (v ! 12) 2 ((v ! 5 * spec_tank_and_engine_len (v ! 2) + v ! 4) / 2) = Inr span \<and>
        scale (v ! 13) 0 frc = Inr tip \<and>
        scale (v ! 14) 0 frc = Inr sweep \<and>
        scale (v ! 16) frc ((v ! 5 * spec_tank_and_engine_len (v ! 2) + v ! 4) / 2) = Inr sep \<and>
        d = [(''dry_mass'', PNum (v ! 0)),
             (''thrust_margin'', PNum (v ! 1)),
             (''radius'', PNum (v ! 2)),
             (''dry_CoM'', PNum com),
             (''nose_len'', PNum (v ! 4)),
             (''body_len'', PNum (v ! 5 * spec_tank_and_engine_len (v ! 2))),
             (''boat_len'', PNum (v ! 6)),
             (''nose_shape'', PNum (v ! 7)),
             (''nose_tip_di'', PNum (v ! 8)),
             (''nose_power'', PNum (v ! 9)),
             (''fin_count'', PNum (v ! 10)),
             (''fin_root_chord'', PNum frc),
             (''fin_span'', PNum span),
             (''fin_tip_chord'', PNum tip),
             (''fin_sweep'', PNum sweep),
             (''fin_thickness'', PNum (v ! 15 / 8)),
             (''fin_base_sep'', PNum sep),
             (''fin_shape'', PNum (v ! 17)),
             (''fin_le_rad'', if v ! 17 \<in> {1, 3, 4, 5, 6, 7} then PNum (v ! 18) else PNone),
             (''fin_le_len'', if v ! 17 \<in> {1, 3, 6} then PNum (v ! 19) else PNone),
             (''fin_te_len'', if v ! 17 = 1 then PNum (v ! 20) else PNone),
             (''CH4_tube_radius'', PNum (v ! 21 / 8))])"
  unfolding parse_args_def spec_tank_and_engine_len_def Let_def
  by (auto simp: bnd_eq_Inr_iff idx_eq_Inr_iff py_pow_eq_Inr_iff)

section \<open>The scale helper: interpolation and range\<close>

text \<open>
  Claim C2. For \<open>0 \<le> v \<le> 1\<close> and \<open>lo \<le> hi\<close> the scale helper returns \<open>v * (hi - lo) + lo\<close>,
  a value between \<open>lo\<close> and \<open>hi\<close>; it maps \<open>0\<close> to \<open>lo\<close> and \<open>1\<close> to \<open>hi\<close>.
\<close>

theorem scale_interpolates:
  assumes "0 \<le> v" "v \<le> 1" "lo \<le> hi"
  shows "scale v lo hi = Inr (v * (hi - lo) + lo) \<and>
         lo \<le> v * (hi - lo) + lo \<and> v * (hi - lo) + lo \<le> hi \<and>
         scale 0 lo hi = Inr lo \<and> scale 1 lo hi = Inr hi"
  using assms scale_bounds [OF assms] by (simp add: scale_def)

theorem scale_interpolates_witness:
  "scale (1 / 4) 2 10 = Inr 4 \<and> scale 0 2 10 = Inr 2 \<and> scale 1 2 10 = Inr 10"
  using scale_interpolates [of "1 / 4" 2 10] by simp

section \<open>The domain of the decoder\<close>

text \<open>
  The decoder returns a dictionary for every vector of at least 22 entries whose radius
  (index 2) is not zero, whose proportions at indices 3, 11, 12, 13, 14 and 16 lie in
  \<open>[0, 1]\<close>, and for which half of body plus nose length is at least 2, the lower bound of
  the fin root chord and of the fin span.
\<close>

lemma parse_args_total:
  assumes len: "22 \<le> length v" and nz: "v ! 2 \<noteq> 0"
    and p: "\<forall>i \<in> {3, 11, 12, 13, 14, 16}. 0 \<le> v ! i \<and> v ! i \<le> 1"
    and h: "2 \<le> (v ! 5 * spec_tank_and_engine_len (v ! 2) + v ! 4) / 2"
  shows "\<exists>d. parse_args v = Inr d"
proof -
  define T where "T = spec_tank_and_engine_len (v ! 2)"
  define B where "B = v ! 5 * T"
  define H where "H = (B + v ! 4) / 2"
  define frc where "frc = v ! 11 * (H - 2) + 2"
  have "0 < (v ! 2 * 0.0254)\<^sup>2" using nz by simp
  then have "0 < (v ! 2 * 0.0254) powi (- 2)" by (simp add: power_int_minus_divide)
  then have T: "10 < T" unfolding T_def spec_tank_and_engine_len_def by simp
  have H: "2 \<le> H" unfolding H_def B_def T_def using h .
  have p3: "0 \<le> v ! 3" "v ! 3 \<le> 1" and p11: "0 \<le> v ! 11" "v ! 11 \<le> 1"
    and p12: "0 \<le> v ! 12" "v ! 12 \<le> 1" and p13: "0 \<le> v ! 13" "v ! 13 \<le> 1"
    and p14: "0 \<le> v ! 14" "v ! 14 \<le> 1" and p16: "0 \<le> v ! 16" "v ! 16 \<le> 1"
    using p by simp_all
  have frc: "2 \<le> frc" "frc \<le> H"
    unfolding frc_def using scale_bounds [OF p11 H] by simp_all
  have com: "v ! 4 + B - T / 2 \<le> v ! 4 + B - T / 3" using T by simp
  have s1: "scale (v ! 11) 2 H = Inr frc"
    using p11 H by (simp add: scale_eq_Inr_iff frc_def)
  have s2: "scale (v ! 3) (v ! 4 + B - T / 2) (v ! 4 + B - T / 3) =
      Inr (v ! 3 * ((v ! 4 + B - T / 3) - (v ! 4 + B - T / 2)) + (v ! 4 + B - T / 2))"
    using p3 com by (simp only: scale_eq_Inr_iff simp_thms)
  have s3: "scale (v ! 12) 2 H = Inr (v ! 12 * (H - 2) + 2)"
    using p12 H by (simp add: scale_eq_Inr_iff)
  have s4: "scale (v ! 13) 0 frc = Inr (v ! 13 * (frc - 0) + 0)"
    using p13 frc(1) by (simp add: scale_eq_Inr_iff)
  have s5: "scale (v ! 14) 0 frc = Inr (v ! 14 * (frc - 0) + 0)"
    using p14 frc(1) by (simp add: scale_eq_Inr_iff)
  have s6: "scale (v ! 16) frc H = Inr (v ! 16 * (H - frc) + frc)"
    using p16 frc(2) by (simp add: scale_eq_Inr_iff)
  show ?thesis
    unfolding parse_args_Inr_iff
    using len nz s1 s2 s3 s4 s5 s6 unfolding H_def B_def T_def by blast
qed

text \<open>These are the only vectors for which it returns: on every other vector it raises.\<close>

lemma parse_args_domain:
  "(\<exists>d. parse_args v = Inr d) \<longleftrightarrow>
     22 \<le> length v \<and> v ! 2 \<noteq> 0 \<and>
     (\<forall>i \<in> {3, 11, 12, 13, 14, 16}. 0 \<le> v ! i \<and> v ! i \<le> 1) \<and>
     2 \<le> (v ! 5 * spec_tank_and_engine_len (v ! 2) + v ! 4) / 2"
proof
  assume "\<exists>d. parse_args v = Inr d"
  then show "22 \<le> length v \<and> v ! 2 \<noteq> 0 \<and>
     (\<forall>i \<in> {3, 11, 12, 13, 14, 16}. 0 \<le> v ! i \<and> v ! i \<le> 1) \<and>
     2 \<le> (v ! 5 * spec_tank_and_engine_len (v ! 2) + v ! 4) / 2"
    unfolding parse_args_Inr_iff scale_eq_Inr_iff by auto
next
  assume "22 \<le> length v \<and> v ! 2 \<noteq> 0 \<and>
     (\<forall>i \<in> {3, 11, 12, 13, 14, 16}. 0 \<le> v ! i \<and> v ! i \<le> 1) \<and>
     2 \<le> (v ! 5 * spec_tank_and_engine_len (v ! 2) + v ! 4) / 2"
  then show "\<exists>d. parse_args v = Inr d"
    using parse_args_total [of v] by blast
qed

section \<open>The decoded fields\<close>


text \<open>
  Claim C8. For every vector in the domain of the decoder, the decoder returns a
  dictionary whose \<open>fin_thickness\<close> is the value at index 15 divided by 8 and whose
  \<open>CH4_tube_radius\<close> is the value at index 21 divided by 8; the value 8 gives 1 in both.
\<close>

theorem parse_args_eighths:
  assumes "22 \<le> length v" and "v ! 2 \<noteq> 0"
    and "\<forall>i \<in> {3, 11, 12, 13, 14, 16}. 0 \<le> v ! i \<and> v ! i \<le> 1"
    and "2 \<le> (v ! 5 * spec_tank_and_engine_len (v ! 2) + v ! 4) / 2"
  shows "\<exists>d. parse_args v = Inr d \<and>
           dict_get d ''fin_thickness'' = Some (PNum (v ! 15 / 8)) \<and>
           dict_get d ''CH4_tube_radius'' = Some (PNum (v ! 21 / 8)) \<and>
           (v ! 15 = 8 \<longrightarrow> dict_get d ''fin_thickness'' = Some (PNum 1)) \<and>
           (v ! 21 = 8 \<longrightarrow> dict_get d ''CH4_tube_radius'' = Some (PNum 1))"
proof -
  obtain d where d: "parse_args v = Inr d"
    using parse_args_total [OF assms] ..
  have "dict_get d ''fin_thickness'' = Some (PNum (v ! 15 / 8)) \<and>
         dict_get d ''CH4_tube_radius'' = Some (PNum (v ! 21 / 8)) \<and>
         (v ! 15 = 8 \<longrightarrow> dict_get d ''fin_thickness'' = Some (PNum 1)) \<and>
         (v ! 21 = 8 \<longrightarrow> dict_get d ''CH4_tube_radius'' = Some (PNum 1))"
    using d unfolding parse_args_Inr_iff by (auto simp: dict_get_def)
  with d show ?thesis by blast
qed

text \<open>
  Claim C6. For every vector in the domain of the decoder, the decoder returns a
  dictionary in which \<open>fin_le_rad\<close> is the value at index 18 if the fin shape (index 17)
  is one of 1, 3, 4, 5, 6, 7 and \<open>None\<close> otherwise; \<open>fin_le_len\<close> is the value at index 19
  if the fin shape is one of 1, 3, 6 and \<open>None\<close> otherwise; \<open>fin_te_len\<close> is the value at
  index 20 if the fin shape is 1 and \<open>None\<close> otherwise. So shape 2 gives three \<open>None\<close>,
  shape 1 three numbers, and shape 3 two numbers and \<open>None\<close> for \<open>fin_te_len\<close>.
\<close>

theorem parse_args_fin_edges:
  assumes "22 \<le> length v" and "v ! 2 \<noteq> 0"
    and "\<forall>i \<in> {3, 11, 12, 13, 14, 16}. 0 \<le> v ! i \<and> v ! i \<le> 1"
    and "2 \<le> (v ! 5 * spec_tank_and_engine_len (v ! 2) + v ! 4) / 2"
  shows "\<exists>d. parse_args v = Inr d \<and>
           dict_get d ''fin_le_rad'' =
             Some (if v ! 17 \<in> {1, 3, 4, 5, 6, 7} then PNum (v ! 18) else PNone) \<and>
           dict_get d ''fin_le_len'' =
             Some (if v ! 17 \<in> {1, 3, 6} then PNum (v ! 19) else PNone) \<and>
           dict_get d ''fin_te_len'' =
             Some (if v ! 17 = 1 then PNum (v ! 20) else PNone) \<and>
           (v ! 17 = 2 \<longrightarrow>
              dict_get d ''fin_le_rad'' = Some PNone \<and>
              dict_get d ''fin_le_len'' = Some PNone \<and>
              dict_get d ''fin_te_len'' = Some PNone) \<and>
           (v ! 17 = 1 \<longrightarrow>
              dict_get d ''fin_le_rad'' = Some (PNum (v ! 18)) \<and>
              dict_get d ''fin_le_len'' = Some (PNum (v ! 19)) \<and>
              dict_get d ''fin_te_len'' = Some (PNum (v ! 20))) \<and>
           (v ! 17 = 3 \<longrightarrow>
              dict_get d ''fin_le_rad'' = Some (PNum (v ! 18)) \<and>
              dict_get d ''fin_le_len'' = Some (PNum (v ! 19)) \<and>
              dict_get d ''fin_te_len'' = Some PNone)"
proof -
  obtain d where d: "parse_args v = Inr d"
    using parse_args_total [OF assms] ..
  have rad: "dict_get d ''fin_le_rad'' =
      Some (if v ! 17 \<in> {1, 3, 4, 5, 6, 7} then PNum (v ! 18) else PNone)"
    and len: "dict_get d ''fin_le_len'' =
      Some (if v ! 17 \<in> {1, 3, 6} then PNum (v ! 19) else PNone)"
    and te: "dict_get d ''fin_te_len'' = Some (if v ! 17 = 1 then PNum (v ! 20) else PNone)"
    using d unfolding parse_args_Inr_iff by (auto simp: dict_get_def)
  have "(v ! 17 = 2 \<longrightarrow>
            dict_get d ''fin_le_rad'' = Some PNone \<and> dict_get d ''fin_le_len'' = Some PNone \<and>
            dict_get d ''fin_te_len'' = Some PNone) \<and>
         (v ! 17 = 1 \<longrightarrow>
            dict_get d ''fin_le_rad'' = Some (PNum (v ! 18)) \<and>
            dict_get d ''fin_le_len'' = Some (PNum (v ! 19)) \<and>
            dict_get d ''fin_te_len'' = Some (PNum (v ! 20))) \<and>
         (v ! 17 = 3 \<longrightarrow>
            dict_get d ''fin_le_rad'' = Some (PNum (v ! 18)) \<and>
            dict_get d ''fin_le_len'' = Some (PNum (v ! 19)) \<and>
            dict_get d ''fin_te_len'' = Some PNone)"
    unfolding rad len te by simp
  with d rad len te show ?thesis by blast
qed

text \<open>
  Claim C7. A vector whose radius (index 2) is 0 makes the decoder raise: no dictionary is
  returned. With at least six entries the exception is \<open>ZeroDivisionError\<close>, raised by the
  power with exponent \<open>-2\<close>; a shorter vector raises earlier.
\<close>

theorem parse_args_radius_zero:
  assumes "2 < length v" "v ! 2 = 0"
  shows "(\<exists>e. parse_args v = Inl e) \<and>
         (6 \<le> length v \<longrightarrow> parse_args v = Inl ZeroDivisionError)"
proof -
  have "parse_args v \<noteq> Inr d" for d
    using assms(2) by (simp add: parse_args_Inr_iff)
  then have a: "\<exists>e. parse_args v = Inl e"
    by (cases "parse_args v") auto
  have b: "parse_args v = Inl ZeroDivisionError" if "6 \<le> length v"
    using that assms(2) by (simp add: parse_args_def idx_def py_pow_def)
  from a b show ?thesis by blast
qed

text \<open>
  Claim C10. A vector of at least 22 entries that lies within the sampling bounds (radius
  in \<open>[2, 12]\<close>, nose length in \<open>[2, 30]\<close>, body length fraction in \<open>[1.5, 4]\<close>, the proportions at
  indices 3, 11, 12, 13, 14 and 16 in \<open>[0, 1]\<close>) is decoded without any exception. On the
  way: the tank and engine length is positive, the body length exceeds 15, half of body
  plus nose length is at least 2, and the fin root chord lies between 2 and that half.
\<close>

theorem parse_args_in_bounds:
  assumes len: "22 \<le> length v"
    and r: "2 \<le> v ! 2" "v ! 2 \<le> 12"
    and n: "2 \<le> v ! 4" "v ! 4 \<le> 30"
    and b: "1.5 \<le> v ! 5" "v ! 5 \<le> 4"
    and p: "\<forall>i \<in> {3, 11, 12, 13, 14, 16}. 0 \<le> v ! i \<and> v ! i \<le> 1"
  shows "\<exists>d f. parse_args v = Inr d \<and>
           0 < spec_tank_and_engine_len (v ! 2) \<and>
           dict_get d ''body_len'' = Some (PNum (v ! 5 * spec_tank_and_engine_len (v ! 2))) \<and>
           15 < v ! 5 * spec_tank_and_engine_len (v ! 2) \<and>
           2 \<le> (v ! 5 * spec_tank_and_engine_len (v ! 2) + v ! 4) / 2 \<and>
           dict_get d ''fin_root_chord'' = Some (PNum f) \<and>
           2 \<le> f \<and> f \<le> (v ! 5 * spec_tank_and_engine_len (v ! 2) + v ! 4) / 2"
proof -
  define T where "T = spec_tank_and_engine_len (v ! 2)"
  define B where "B = v ! 5 * T"
  define H where "H = (B + v ! 4) / 2"
  define frc where "frc = v ! 11 * (H - 2) + 2"
  have "0 < v ! 2 * 0.0254" using r(1) by simp
  then have "0 < (v ! 2 * 0.0254) powi (- 2)" by (rule zero_less_power_int)
  then have T: "10 < T" unfolding T_def spec_tank_and_engine_len_def by simp
  have m: "3 / 2 * T \<le> v ! 5 * T" using b(1) T by (intro mult_right_mono) simp_all
  have "15 < 3 / 2 * T" using T by simp
  with m have B: "15 < B" unfolding B_def by linarith
  have H: "2 \<le> H" unfolding H_def using B n(1) by simp
  have p3: "0 \<le> v ! 3" "v ! 3 \<le> 1" and p11: "0 \<le> v ! 11" "v ! 11 \<le> 1"
    and p12: "0 \<le> v ! 12" "v ! 12 \<le> 1" and p13: "0 \<le> v ! 13" "v ! 13 \<le> 1"
    and p14: "0 \<le> v ! 14" "v ! 14 \<le> 1" and p16: "0 \<le> v ! 16" "v ! 16 \<le> 1"
    using p by simp_all
  have frc: "2 \<le> frc" "frc \<le> H"
    unfolding frc_def using scale_bounds [OF p11 H] by simp_all
  have com: "v ! 4 + B - T / 2 \<le> v ! 4 + B - T / 3" using T by simp
  have s1: "scale (v ! 11) 2 H = Inr frc"
    using p11 H by (simp add: scale_eq_Inr_iff frc_def)
  have s2: "scale (v ! 3) (v ! 4 + B - T / 2) (v ! 4 + B - T / 3) =
      Inr (v ! 3 * ((v ! 4 + B - T / 3) - (v ! 4 + B - T / 2)) + (v ! 4 + B - T / 2))"
    using p3 com by (simp only: scale_eq_Inr_iff simp_thms)
  have s3: "scale (v ! 12) 2 H = Inr (v ! 12 * (H - 2) + 2)"
    using p12 H by (simp add: scale_eq_Inr_iff)
  have s4: "scale (v ! 13) 0 frc = Inr (v ! 13 * (frc - 0) + 0)"
    using p13 frc(1) by (simp add: scale_eq_Inr_iff)
  have s5: "scale (v ! 14) 0 frc = Inr (v ! 14 * (frc - 0) + 0)"
    using p14 frc(1) by (simp add: scale_eq_Inr_iff)
  have s6: "scale (v ! 16) frc H = Inr (v ! 16 * (H - frc) + frc)"
    using p16 frc(2) by (simp add: scale_eq_Inr_iff)
  have nz: "v ! 2 \<noteq> 0" using r(1) by simp
  obtain d where d: "parse_args v = Inr d"
    unfolding parse_args_Inr_iff
    using len nz s1 s2 s3 s4 s5 s6 unfolding H_def B_def T_def by blast
  have bl: "dict_get d ''body_len'' = Some (PNum B)"
    using d unfolding parse_args_Inr_iff B_def T_def by (auto simp: dict_get_def)
  have "\<exists>f. dict_get d ''fin_root_chord'' = Some (PNum f) \<and> scale (v ! 11) 2 H = Inr f"
    using d unfolding parse_args_Inr_iff H_def B_def T_def by (auto simp: dict_get_def)
  then have fr: "dict_get d ''fin_root_chord'' = Some (PNum frc)"
    using s1 by auto
  show ?thesis
    using d T B H bl fr frc unfolding H_def B_def T_def by auto
qed

section \<open>The space builder: slot by slot\<close>


lemma learnable_slot_cases:
  fixes i :: nat
  assumes "2 \<le> i" "i < 22"
  shows "i \<in> {2, 3, 4, 5, 6, 7, 8, 9, 10, 11, 12, 13, 14, 15, 16, 17, 18, 19, 20, 21}"
  using assms by simp arith


text \<open>
  Every learnable slot holds the parameter of the same position when it is true, and
  otherwise what the call without arguments has there: an expression that stands for the
  descriptor of the specification's table.
\<close>

lemma learnable_slot:
  assumes "2 \<le> i" "i < 22"
  shows "get_sample_space a ! i =
     (if truthy (snd (named_args a ! i)) then Val (snd (named_args a ! i)) else space_all ! i)"
  using learnable_slot_cases [OF assms]
  by (elim insertE emptyE)
    (simp_all add: get_sample_space_def named_args_def py_or_def space_all_def
      signature_defaults_def)

lemma space_all_descriptor:
  assumes "2 \<le> i" "i < 22"
  shows "\<exists>e. space_all ! i = Expr e \<and> descriptor e = Some (canonical_table ! i)"
  using learnable_slot_cases [OF assms]
  by (elim insertE emptyE)
    (simp_all add: get_sample_space_def py_or_def space_all_def signature_defaults_def
      canonical_table_def)



text \<open>
  Claim C3. For every learnable slot: a true value passed for the parameter is the entry
  of the slot, unchanged; when the parameter is omitted (it is then \<open>None\<close>), the entry is
  an expression whose label, kind and bounds are those of the canonical table.
\<close>

theorem fix_vs_default:
  assumes "2 \<le> i" "i < 22"
  shows "(truthy (snd (named_args a ! i)) \<longrightarrow>
            get_sample_space a ! i = Val (snd (named_args a ! i))) \<and>
         (snd (named_args a ! i) = PNone \<longrightarrow>
            (\<exists>e. get_sample_space a ! i = Expr e \<and> descriptor e = Some (canonical_table ! i)))"
  using learnable_slot [OF assms, of a] space_all_descriptor [OF assms] by auto

text \<open>
  Claim C4. For every learnable slot, a false value (\<open>None\<close> or \<open>0\<close>) passed for the
  parameter gives the entry that a call without the parameter gives: the default
  expression of the slot, which stands for the descriptor of the canonical table. It is
  not the number \<open>0\<close>.
\<close>

theorem falsy_is_default:
  assumes "2 \<le> i" "i < 22" "\<not> truthy (snd (named_args a ! i))"
  shows "get_sample_space a ! i = space_all ! i \<and>
         (\<exists>e. get_sample_space a ! i = Expr e \<and> descriptor e = Some (canonical_table ! i)) \<and>
         get_sample_space a ! i \<noteq> Val (PNum 0)"
  using learnable_slot [OF assms(1,2), of a] space_all_descriptor [OF assms(1,2)] assms(3)
  by auto


section \<open>The example vector, decoded\<close>

lemma parse_args_example: "parse_args example_vector = Inr example_design"
  by (simp add: parse_args_def example_vector_def example_design_def idx_def py_pow_def
      scale_def Let_def power_int_minus_divide power_divide)


theorem parse_args_eighths_witness:
  "\<exists>d. parse_args (example_vector[15 := 8]) = Inr d \<and>
       dict_get d ''fin_thickness'' = Some (PNum 1) \<and>
       dict_get d ''CH4_tube_radius'' = Some (PNum 1)"
proof -
  let ?v = "example_vector[15 := 8]"
  have h: "22 \<le> length ?v" "?v ! 2 \<noteq> 0"
    "\<forall>i \<in> {3, 11, 12, 13, 14, 16}. 0 \<le> ?v ! i \<and> ?v ! i \<le> 1"
    "2 \<le> (?v ! 5 * spec_tank_and_engine_len (?v ! 2) + ?v ! 4) / 2"
    by (simp_all add: example_vector_def spec_tank_and_engine_len_def
        power_int_minus_divide power_divide)
  from parse_args_eighths [OF h] show ?thesis
    by (simp add: example_vector_def) blast
qed

theorem parse_args_fin_edges_witness:
  "(\<exists>d. parse_args example_vector = Inr d \<and>
        dict_get d ''fin_le_rad'' = Some (PNum 0.5) \<and>
        dict_get d ''fin_le_len'' = Some (PNum 1.5) \<and>
        dict_get d ''fin_te_len'' = Some (PNum 1.5)) \<and>
   (\<exists>d. parse_args (example_vector[17 := 2]) = Inr d \<and>
        dict_get d ''fin_le_rad'' = Some PNone \<and>
        dict_get d ''fin_le_len'' = Some PNone \<and>
        dict_get d ''fin_te_len'' = Some PNone) \<and>
   (\<exists>d. parse_args (example_vector[17 := 3]) = Inr d \<and>
        dict_get d ''fin_le_rad'' = Some (PNum 0.5) \<and>
        dict_get d ''fin_le_len'' = Some (PNum 1.5) \<and>
        dict_get d ''fin_te_len'' = Some PNone) \<and>
   (\<exists>d. parse_args (example_vector[17 := 4]) = Inr d \<and>
        dict_get d ''fin_le_rad'' = Some (PNum 0.5) \<and>
        dict_get d ''fin_le_len'' = Some PNone \<and>
        dict_get d ''fin_te_len'' = Some PNone)"
proof -
  have h1: "22 \<le> length example_vector" "example_vector ! 2 \<noteq> 0"
    "\<forall>i \<in> {3, 11, 12, 13, 14, 16}. 0 \<le> example_vector ! i \<and> example_vector ! i \<le> 1"
    "2 \<le> (example_vector ! 5 * spec_tank_and_engine_len (example_vector ! 2) +
       example_vector ! 4) / 2"
    by (simp_all add: example_vector_def spec_tank_and_engine_len_def
        power_int_minus_divide power_divide)
  have h: "22 \<le> length (example_vector[17 := s])" "example_vector[17 := s] ! 2 \<noteq> 0"
    "\<forall>i \<in> {3, 11, 12, 13, 14, 16}.
       0 \<le> example_vector[17 := s] ! i \<and> example_vector[17 := s] ! i \<le> 1"
    "2 \<le> (example_vector[17 := s] ! 5 *
       spec_tank_and_engine_len (example_vector[17 := s] ! 2) +
       example_vector[17 := s] ! 4) / 2" for s
    by (simp_all add: example_vector_def spec_tank_and_engine_len_def
        power_int_minus_divide power_divide)
  have a: "\<exists>d. parse_args example_vector = Inr d \<and>
        dict_get d ''fin_le_rad'' = Some (PNum 0.5) \<and>
        dict_get d ''fin_le_len'' = Some (PNum 1.5) \<and>
        dict_get d ''fin_te_len'' = Some (PNum 1.5)"
    using parse_args_fin_edges [OF h1] by (simp add: example_vector_def) blast
  have b: "\<exists>d. parse_args (example_vector[17 := 2]) = Inr d \<and>
        dict_get d ''fin_le_rad'' = Some PNone \<and>
        dict_get d ''fin_le_len'' = Some PNone \<and>
        dict_get d ''fin_te_len'' = Some PNone"
    using parse_args_fin_edges [OF h [of 2]] by (simp add: example_vector_def) blast
  have c: "\<exists>d. parse_args (example_vector[17 := 3]) = Inr d \<and>
        dict_get d ''fin_le_rad'' = Some (PNum 0.5) \<and>
        dict_get d ''fin_le_len'' = Some (PNum 1.5) \<and>
        dict_get d ''fin_te_len'' = Some PNone"
    using parse_args_fin_edges [OF h [of 3]] by (simp add: example_vector_def) blast
  have e: "\<exists>d. parse_args (example_vector[17 := 4]) = Inr d \<and>
        dict_get d ''fin_le_rad'' = Some (PNum 0.5) \<and>
        dict_get d ''fin_le_len'' = Some PNone \<and>
        dict_get d ''fin_te_len'' = Some PNone"
    using parse_args_fin_edges [OF h [of 4]] by (simp add: example_vector_def)
  from a b c e show ?thesis by blast
qed

theorem parse_args_radius_zero_witness:
  "parse_args (example_vector[2 := 0]) = Inl ZeroDivisionError"
  using parse_args_radius_zero [of "example_vector[2 := 0]"]
  by (simp add: example_vector_def)

theorem parse_args_in_bounds_witness:
  "\<exists>d f. parse_args example_vector = Inr d \<and>
         dict_get d ''fin_root_chord'' = Some (PNum f) \<and> 2 \<le> f \<and>
         15 < 2 * spec_tank_and_engine_len 10"
  using parse_args_in_bounds [of example_vector]
  by (simp add: example_vector_def) blast

section \<open>The space builder at concrete calls\<close>

theorem fix_vs_default_witness:
  "get_sample_space (signature_defaults\<lparr>fin_le_rad := PNum 0.5\<rparr>) ! 18 = Val (PNum 0.5) \<and>
   (\<exists>e. get_sample_space (signature_defaults\<lparr>fin_le_rad := PNum 0.5\<rparr>) ! 2 = Expr e \<and>
        descriptor e = Some (''radius'', UniformRange 2 12))"
  using fix_vs_default [of 18 "signature_defaults\<lparr>fin_le_rad := PNum 0.5\<rparr>"]
    fix_vs_default [of 2 "signature_defaults\<lparr>fin_le_rad := PNum 0.5\<rparr>"]
  by (simp add: named_args_def signature_defaults_def canonical_table_def)

theorem falsy_is_default_witness:
  "get_sample_space (signature_defaults\<lparr>nose_tip_di := PNum 0\<rparr>) ! 8 = space_all ! 8 \<and>
   get_sample_space (signature_defaults\<lparr>nose_tip_di := PNum 0\<rparr>) ! 8 \<noteq> Val (PNum 0) \<and>
   (\<exists>e. get_sample_space (signature_defaults\<lparr>nose_tip_di := PNum 0\<rparr>) ! 8 = Expr e \<and>
        descriptor e = Some (''nose_tip_di'', UniformRange 0 2))"
proof -
  have h: "\<not> truthy (snd (named_args (signature_defaults\<lparr>nose_tip_di := PNum 0\<rparr>) ! 8))"
    by (simp add: named_args_def signature_defaults_def)
  have "2 \<le> (8::nat)" "(8::nat) < 22" by simp_all
  note r = falsy_is_default [OF this h]
  have ct: "canonical_table ! 8 = (''nose_tip_di'', UniformRange 0 2)"
    by (simp add: canonical_table_def)
  show ?thesis using r unfolding ct by blast
qed


section \<open>The preset spaces\<close>

lemma pinned_space_all: "pinned space_all = 0"
  by (simp add: pinned_def space_all_def get_sample_space_def signature_defaults_def py_or_def)

lemma pinned_space_most: "pinned space_most = 4"
  by (simp add: pinned_def space_most_def space_most_args_def get_sample_space_def
      signature_defaults_def py_or_def)

lemma pinned_space_few: "pinned space_few = 6"
  by (simp add: pinned_def space_few_def space_few_args_def get_sample_space_def
      signature_defaults_def py_or_def)

lemma pinned_space_body: "pinned space_body = 13"
  by (simp add: pinned_def space_body_def space_body_args_def get_sample_space_def
      signature_defaults_def py_or_def)

lemma passed_presets:
  "passed signature_defaults = 0" "passed space_most_args = 4"
  "passed space_few_args = 8" "passed space_body_args = 16"
  by (simp_all add: passed_def named_args_def signature_defaults_def space_most_args_def
      space_few_args_def space_body_args_def)

lemma space_few_dropped:
  "map (nth space_few) [8, 16] =
     [Expr (hp_uniform ''nose_tip_di'' 0 2), Expr (hp_uniform ''fin_base_sep'' 0 1)]"
  by (simp add: space_few_def space_few_args_def get_sample_space_def signature_defaults_def
      py_or_def)

lemma space_body_dropped:
  "map (nth space_body) [8, 9, 16] =
     [Expr (hp_uniform ''nose_tip_di'' 0 2), Expr (hp_uniform ''nose_power'' 0 0.99),
      Expr (hp_uniform ''fin_base_sep'' 0 1)]"
  by (simp add: space_body_def space_body_args_def get_sample_space_def signature_defaults_def
      py_or_def)

text \<open>
  Claim C5 says that no learnable slot of \<open>space_all\<close> is pinned, exactly 4 of
  \<open>space_most\<close>, exactly 8 of \<open>space_few\<close> and exactly 15 of \<open>space_body\<close>. The code, at
  these four calls: \<open>space_all\<close> and \<open>space_most\<close> pin 0 and 4 slots. The call for
  \<open>space_few\<close> passes 8 keyword arguments and pins 6 slots: \<open>nose_tip_di\<close> and \<open>fin_base_sep\<close>
  are passed as \<open>0\<close>, and slots 8 and 16 hold the default expressions instead. The call for
  \<open>space_body\<close> passes 16 keyword arguments and pins 13 slots: \<open>nose_tip_di\<close>, \<open>nose_power\<close>
  and \<open>fin_base_sep\<close> are passed as \<open>0\<close>, and slots 8, 9 and 16 hold the default expressions.
\<close>

theorem preset_counts:
  "pinned space_all = 0 \<and> pinned space_most = 4 \<and>
   pinned space_few = 6 \<and> pinned space_body = 13 \<and>
   passed space_most_args = 4 \<and> passed space_few_args = 8 \<and> passed space_body_args = 16 \<and>
   map (nth space_few) [8, 16] =
     [Expr (hp_uniform ''nose_tip_di'' 0 2), Expr (hp_uniform ''fin_base_sep'' 0 1)] \<and>
   map (nth space_body) [8, 9, 16] =
     [Expr (hp_uniform ''nose_tip_di'' 0 2), Expr (hp_uniform ''nose_power'' 0 0.99),
      Expr (hp_uniform ''fin_base_sep'' 0 1)]"
  unfolding space_few_dropped space_body_dropped
  by (simp add: pinned_space_all pinned_space_most pinned_space_few pinned_space_body
      passed_presets)

end
